theory Spec2Isabelle
  imports Complex_Main
begin

section \<open>JavaScript values held in the shop's records\<close>

text \<open>
  The fields the transaction code reads (\<open>currentStock\<close>, \<open>quantity\<close>, \<open>customPrice\<close>,
  \<open>system.currency.gp\<close>, \<open>system.price.value\<close>) are JavaScript values. The values the
  repository writes into them are: nothing (\<open>undefined\<close>), \<open>null\<close>, a number, and the
  empty string that \<open>getItemPrice\<close> tests for. Numbers are modelled as the rationals
  plus \<open>NaN\<close>, so that a fractional price or stock is a value of the model; the rounding
  of double arithmetic is not modelled (whole numbers below \<open>2^53\<close> are exact).
\<close>

datatype jsval = JUndefined | JNull | JNum rat | JNaN | JEmptyStr

text \<open>\<open>ToNumber\<close>: \<open>None\<close> stands for \<open>NaN\<close>.\<close>

fun toNumber :: "jsval \<Rightarrow> rat option" where
  "toNumber JUndefined = None"
| "toNumber JNull = Some 0"
| "toNumber (JNum n) = Some n"
| "toNumber JNaN = None"
| "toNumber JEmptyStr = Some 0"

text \<open>\<open>Number(v)\<close>.\<close>

definition js_Number :: "jsval \<Rightarrow> jsval" where
  "js_Number v = (case toNumber v of None \<Rightarrow> JNaN | Some n \<Rightarrow> JNum n)"

text \<open>Truthiness: \<open>undefined\<close>, \<open>null\<close>, \<open>0\<close>, \<open>NaN\<close> and \<open>''\<close> are falsy.\<close>

fun truthy :: "jsval \<Rightarrow> bool" where
  "truthy (JNum n) = (n \<noteq> 0)"
| "truthy JUndefined = False"
| "truthy JNull = False"
| "truthy JNaN = False"
| "truthy JEmptyStr = False"

text \<open>\<open>a || b\<close>.\<close>

definition js_or :: "jsval \<Rightarrow> jsval \<Rightarrow> jsval" where
  "js_or a b = (if truthy a then a else b)"

text \<open>\<open>a ?? b\<close>.\<close>

definition nullish :: "jsval \<Rightarrow> jsval \<Rightarrow> jsval" where
  "nullish a b = (if a = JUndefined \<or> a = JNull then b else a)"

text \<open>\<open>a <= b\<close>, \<open>a >= b\<close>, \<open>a < b\<close> and \<open>a - b\<close> on these values: both sides go through
  \<open>ToNumber\<close>; a comparison with \<open>NaN\<close> is false and a difference with \<open>NaN\<close> is \<open>NaN\<close>.\<close>

definition js_le :: "jsval \<Rightarrow> jsval \<Rightarrow> bool" where
  "js_le a b = (case toNumber a of None \<Rightarrow> False
     | Some x \<Rightarrow> (case toNumber b of None \<Rightarrow> False | Some y \<Rightarrow> x \<le> y))"

definition js_ge :: "jsval \<Rightarrow> jsval \<Rightarrow> bool" where
  "js_ge a b = (case toNumber a of None \<Rightarrow> False
     | Some x \<Rightarrow> (case toNumber b of None \<Rightarrow> False | Some y \<Rightarrow> y \<le> x))"


definition js_sub :: "jsval \<Rightarrow> jsval \<Rightarrow> jsval" where
  "js_sub a b = (case toNumber a of None \<Rightarrow> JNaN
     | Some x \<Rightarrow> (case toNumber b of None \<Rightarrow> JNaN | Some y \<Rightarrow> JNum (x - y)))"

section \<open>Data model (config.js)\<close>

text \<open>\<open>AVAILABILITY_TYPES\<close>.\<close>

datatype availability_type = UNLIMITED | LIMITED | RESERVATION

text \<open>An entry of \<open>shopConfig.items\<close>:
  \<open>itemUuid -> { availability, quantity, customPrice, currentStock }\<close>.\<close>

record item_config =
  availability :: availability_type
  quantity :: jsval
  customPrice :: jsval
  currentStock :: jsval

text \<open>The \<open>shopConfig\<close> setting.\<close>

record shop_config =
  compendiums :: "string list"
  items :: "string \<rightharpoonup> item_config"

text \<open>A catalog item, as \<open>fromUuid\<close> resolves it: its document id, its name and
  \<open>system.price.value\<close> (\<open>JUndefined\<close> when the optional chain yields nothing).\<close>

record item =
  item_id :: string
  item_name :: string
  price_value :: jsval

text \<open>\<open>item.toObject()\<close> with \<open>_id\<close> deleted: the data granted to an actor.\<close>

record item_data =
  data_name :: string
  data_price :: jsval

definition toObject_without_id :: "item \<Rightarrow> item_data" where
  "toObject_without_id it = \<lparr>data_name = item_name it, data_price = price_value it\<rparr>"

text \<open>An actor: its name, \<open>system.currency\<close> (\<open>None\<close> when \<open>system\<close> or \<open>currency\<close> is
  missing, otherwise the value of \<open>gp\<close>), its embedded items and its \<open>ownership\<close> object
  (keys in insertion order, \<open>None\<close> when the field is missing).\<close>

record actor =
  actor_name :: string
  currency_gp :: "jsval option"
  inventory :: "item_data list"
  ownership :: "(string \<times> nat) list option"

datatype log_type = LogPurchase | LogReservation

text \<open>The entry handed to \<open>addActivityLog\<close>; \<open>price\<close> and \<open>currency\<close> are absent
  (\<open>None\<close>) on a reservation entry.\<close>

record log_payload =
  log_type :: log_type
  log_actorId :: string
  log_actorName :: string
  log_playerName :: string
  log_itemUuid :: string
  log_itemName :: string
  log_price :: "jsval option"
  log_currency :: "string option"

text \<open>\<open>{ ...entry, id, timestamp }\<close>.\<close>

record log_entry =
  payload :: log_payload
  entry_id :: string
  entry_timestamp :: string

text \<open>An element of \<open>reservations[itemUuid]\<close>.\<close>

record reservation =
  res_actorId :: string
  res_actorName :: string
  res_playerName :: string
  res_timestamp :: string

text \<open>The world state the module works on: the host's actors, catalog and users, and the
  five settings of \<open>registerSettings\<close>. A setting is read and written as a whole value.\<close>

record world =
  actors :: "string \<rightharpoonup> actor"
  catalog :: "string \<rightharpoonup> item"
  users :: "string \<rightharpoonup> string"
  currencyName :: string
  shopOpen :: bool
  shopConfig :: shop_config
  activityLog :: "log_entry list"
  reservations :: "string \<rightharpoonup> reservation list"

definition getCurrencyName :: "world \<Rightarrow> string" where
  "getCurrencyName w = currencyName w"

definition isShopOpen :: "world \<Rightarrow> bool" where
  "isShopOpen w = shopOpen w"

definition toggleShop :: "world \<Rightarrow> bool \<times> world" where
  "toggleShop w = (\<not> isShopOpen w, w\<lparr>shopOpen := \<not> isShopOpen w\<rparr>)"

definition getShopConfig :: "world \<Rightarrow> shop_config" where
  "getShopConfig w = shopConfig w"

definition setShopConfig :: "shop_config \<Rightarrow> world \<Rightarrow> world" where
  "setShopConfig config w = w\<lparr>shopConfig := config\<rparr>"

definition getActivityLog :: "world \<Rightarrow> log_entry list" where
  "getActivityLog w = activityLog w"

text \<open>\<open>addActivityLog(entry)\<close>: \<open>unshift\<close> the stamped entry, then \<open>pop\<close> once when the
  length exceeds 500. The random id and the clock reading are inputs.\<close>

definition stamp :: "string \<Rightarrow> string \<Rightarrow> log_payload \<Rightarrow> log_entry" where
  "stamp rid now entry = \<lparr>payload = entry, entry_id = rid, entry_timestamp = now\<rparr>"

definition addActivityLog :: "string \<Rightarrow> string \<Rightarrow> log_payload \<Rightarrow> world \<Rightarrow> world" where
  "addActivityLog rid now entry w =
     (let lg = stamp rid now entry # getActivityLog w;
          lg' = (if length lg > 500 then butlast lg else lg)
      in w\<lparr>activityLog := lg'\<rparr>)"

definition clearActivityLog :: "world \<Rightarrow> world" where
  "clearActivityLog w = w\<lparr>activityLog := []\<rparr>"

definition getReservations :: "world \<Rightarrow> (string \<rightharpoonup> reservation list)" where
  "getReservations w = reservations w"

text \<open>\<open>addReservation\<close>: create the item's list when missing, \<open>push\<close> the record, write
  the setting. It returns nothing.\<close>

definition addReservation :: "string \<Rightarrow> string \<Rightarrow> string \<Rightarrow> string \<Rightarrow> string \<Rightarrow> world \<Rightarrow> world" where
  "addReservation now itemUuid actorId actorName playerName w =
     (let rs = getReservations w;
          old = (case rs itemUuid of None \<Rightarrow> [] | Some l \<Rightarrow> l);
          r = \<lparr>res_actorId = actorId, res_actorName = actorName,
               res_playerName = playerName, res_timestamp = now\<rparr>
      in w\<lparr>reservations := rs(itemUuid \<mapsto> old @ [r])\<rparr>)"

text \<open>The reservations of one item, oldest first (\<open>reservations[itemUuid]\<close>, empty when
  the key is missing).\<close>

definition reservationsOf :: "world \<Rightarrow> string \<Rightarrow> reservation list" where
  "reservationsOf w itemUuid = (case getReservations w itemUuid of None \<Rightarrow> [] | Some l \<Rightarrow> l)"

definition clearItemReservations :: "string \<Rightarrow> world \<Rightarrow> world" where
  "clearItemReservations itemUuid w = w\<lparr>reservations := (getReservations w)(itemUuid := None)\<rparr>"

section \<open>MarketStore (market-store.js)\<close>

definition getItemConfig :: "string \<Rightarrow> world \<Rightarrow> item_config option" where
  "getItemConfig itemUuid w = items (getShopConfig w) itemUuid"

text \<open>\<open>getItemPrice(item, itemConfig)\<close>; \<open>itemConfig?.customPrice\<close> is \<open>undefined\<close> when
  there is no entry.\<close>

definition getItemPrice :: "item \<Rightarrow> item_config option \<Rightarrow> jsval" where
  "getItemPrice it itemConfig =
     (let cp = (case itemConfig of None \<Rightarrow> JUndefined | Some c \<Rightarrow> customPrice c)
      in if cp \<noteq> JNull \<and> cp \<noteq> JUndefined \<and> cp \<noteq> JEmptyStr
         then js_Number cp
         else js_or (price_value it) (JNum 0))"

text \<open>\<open>getAvailableStock(itemUuid)\<close>; \<open>JNull\<close> is the \<open>null\<close> returned for unlimited.\<close>

definition getAvailableStock :: "string \<Rightarrow> world \<Rightarrow> jsval" where
  "getAvailableStock itemUuid w =
     (case items (getShopConfig w) itemUuid of
        None \<Rightarrow> JNull
      | Some itemConfig \<Rightarrow>
          if availability itemConfig = UNLIMITED then JNull
          else nullish (nullish (currentStock itemConfig) (quantity itemConfig)) (JNum 0))"

text \<open>\<open>canAfford(actor, price)\<close>: \<open>actor.system?.currency?.gp || 0\<close> against the price.\<close>

definition canAfford :: "actor \<Rightarrow> jsval \<Rightarrow> bool" where
  "canAfford a price =
     js_ge (js_or (case currency_gp a of None \<Rightarrow> JUndefined | Some g \<Rightarrow> g) (JNum 0)) price"

text \<open>The requesting player's name: the first key of \<open>actor.ownership\<close> other than
  \<open>default\<close> whose level is 3, looked up in \<open>game.users\<close>; \<open>Unknown\<close> when there is no
  such user or its name is empty.\<close>

definition ownerId :: "actor \<Rightarrow> string option" where
  "ownerId a = (case ownership a of None \<Rightarrow> None
     | Some own \<Rightarrow> find (\<lambda>uid. map_of own uid = Some 3 \<and> uid \<noteq> ''default'') (map fst own))"

definition playerNameOf :: "world \<Rightarrow> actor \<Rightarrow> string" where
  "playerNameOf w a = (case ownerId a of None \<Rightarrow> ''Unknown''
     | Some uid \<Rightarrow> (case users w uid of None \<Rightarrow> ''Unknown''
         | Some n \<Rightarrow> if n = [] then ''Unknown'' else n))"

text \<open>The \<open>message\<close> of a result, by the text or localisation key the code uses.\<close>

datatype message =
    ActorNotFound
  | ItemNotFound
  | ItemNotConfigured
  | ItemSoldOut
  | NotEnoughGold string
  | PurchaseSuccess string jsval string
  | NotAvailableForReservation
  | AlreadyReserved
  | ReservationSuccess string
  | NoCharacterSelected
  | ShopClosed

record result =
  success :: bool
  message :: message
  newStock :: jsval

definition failure :: "message \<Rightarrow> result" where
  "failure m = \<lparr>success = False, message = m, newStock = JUndefined\<rparr>"

datatype error = TypeError

definition actor_update_gp :: "string \<Rightarrow> jsval \<Rightarrow> world \<Rightarrow> world" where
  "actor_update_gp actorId v w =
     (case actors w actorId of None \<Rightarrow> w
      | Some a \<Rightarrow> w\<lparr>actors := (actors w)(actorId \<mapsto> a\<lparr>currency_gp := Some v\<rparr>)\<rparr>)"

definition createEmbeddedDocuments :: "string \<Rightarrow> item_data list \<Rightarrow> world \<Rightarrow> world" where
  "createEmbeddedDocuments actorId ds w =
     (case actors w actorId of None \<Rightarrow> w
      | Some a \<Rightarrow> w\<lparr>actors := (actors w)(actorId \<mapsto> a\<lparr>inventory := inventory a @ ds\<rparr>)\<rparr>)"

text \<open>\<open>purchaseItem(actorId, itemUuid)\<close>. Reading \<open>actor.system.currency.gp\<close> (without
  optional chaining) raises a \<open>TypeError\<close> when \<open>system.currency\<close> is missing.\<close>

definition purchaseItem ::
  "string \<Rightarrow> string \<Rightarrow> string \<Rightarrow> string \<Rightarrow> world \<Rightarrow> (error + result) \<times> world" where
  "purchaseItem rid now actorId itemUuid w =
     (case actors w actorId of
        None \<Rightarrow> (Inr (failure ActorNotFound), w)
      | Some a \<Rightarrow>
     (case catalog w itemUuid of
        None \<Rightarrow> (Inr (failure ItemNotFound), w)
      | Some it \<Rightarrow>
     (let config = getShopConfig w in
      case items config itemUuid of
        None \<Rightarrow> (Inr (failure ItemNotConfigured), w)
      | Some itemConfig \<Rightarrow>
          if availability itemConfig = LIMITED \<and>
             js_le (nullish (currentStock itemConfig) (quantity itemConfig)) (JNum 0)
          then (Inr (failure ItemSoldOut), w)
          else
            let price = getItemPrice it (Some itemConfig) in
            if \<not> canAfford a price
            then (Inr (failure (NotEnoughGold (getCurrencyName w))), w)
            else
              (case currency_gp a of
                 None \<Rightarrow> (Inl TypeError, w)
               | Some currentGold \<Rightarrow>
                  let w1 = actor_update_gp actorId (js_sub currentGold price) w;
                      w2 = createEmbeddedDocuments actorId [toObject_without_id it] w1;
                      stock' = js_sub (nullish (currentStock itemConfig) (quantity itemConfig)) (JNum 1);
                      config' = (if availability itemConfig = LIMITED
                                 then config\<lparr>items := (items config)(itemUuid \<mapsto>
                                        itemConfig\<lparr>currentStock := stock'\<rparr>)\<rparr>
                                 else config);
                      w3 = (if availability itemConfig = LIMITED
                            then setShopConfig config' w2 else w2);
                      w4 = addActivityLog rid now
                             \<lparr>log_type = LogPurchase, log_actorId = actorId,
                              log_actorName = actor_name a,
                              log_playerName = playerNameOf w a,
                              log_itemUuid = itemUuid, log_itemName = item_name it,
                              log_price = Some price,
                              log_currency = Some (getCurrencyName w)\<rparr> w3
                  in (Inr \<lparr>success = True,
                           message = PurchaseSuccess (item_name it) price (getCurrencyName w),
                           newStock = (if availability itemConfig = LIMITED
                                       then stock' else JNull)\<rparr>, w4)))))"

text \<open>\<open>reserveItem(actorId, itemUuid)\<close>; \<open>now\<close> stamps the reservation, \<open>rid\<close> and
  \<open>now'\<close> the log entry.\<close>

definition reserveItem ::
  "string \<Rightarrow> string \<Rightarrow> string \<Rightarrow> string \<Rightarrow> string \<Rightarrow> world \<Rightarrow> result \<times> world" where
  "reserveItem now rid now' actorId itemUuid w =
     (case actors w actorId of
        None \<Rightarrow> (failure ActorNotFound, w)
      | Some a \<Rightarrow>
     (case catalog w itemUuid of
        None \<Rightarrow> (failure ItemNotFound, w)
      | Some it \<Rightarrow>
     (case items (getShopConfig w) itemUuid of
        None \<Rightarrow> (failure NotAvailableForReservation, w)
      | Some itemConfig \<Rightarrow>
          if availability itemConfig \<noteq> RESERVATION
          then (failure NotAvailableForReservation, w)
          else
            (case (case getReservations w itemUuid of None \<Rightarrow> None
                   | Some l \<Rightarrow> find (\<lambda>r. res_actorId r = actorId) l) of
               Some existing \<Rightarrow> (failure AlreadyReserved, w)
             | None \<Rightarrow>
                 let playerName = playerNameOf w a;
                     w1 = addReservation now itemUuid actorId (actor_name a) playerName w;
                     w2 = addActivityLog rid now'
                            \<lparr>log_type = LogReservation, log_actorId = actorId,
                             log_actorName = actor_name a, log_playerName = playerName,
                             log_itemUuid = itemUuid, log_itemName = item_name it,
                             log_price = None, log_currency = None\<rparr> w1
                 in (\<lparr>success = True, message = ReservationSuccess (item_name it),
                      newStock = JUndefined\<rparr>, w2)))))"

text \<open>\<open>updateStock(itemUuid, newStock)\<close>.\<close>

definition updateStock :: "string \<Rightarrow> jsval \<Rightarrow> world \<Rightarrow> world" where
  "updateStock itemUuid stock' w =
     (let config = getShopConfig w in
      case items config itemUuid of
        None \<Rightarrow> w
      | Some itemConfig \<Rightarrow>
          setShopConfig (config\<lparr>items := (items config)(itemUuid \<mapsto>
                           itemConfig\<lparr>currentStock := stock'\<rparr>)\<rparr>) w)"


fun succeeded :: "error + result \<Rightarrow> bool" where
  "succeeded (Inr r) = success r"
| "succeeded (Inl e) = False"

text \<open>A sequence of \<open>addActivityLog\<close> calls.\<close>

fun appends :: "(string \<times> string \<times> log_payload) list \<Rightarrow> world \<Rightarrow> world" where
  "appends [] w = w"
| "appends ((rid, now, entry) # es) w = appends es (addActivityLog rid now entry w)"


section \<open>ShopManager (shop-manager.js): the quantity edit and the save\<close>

text \<open>An entry of the form's working copy \<open>_itemConfigs\<close>; a field not yet set is
  \<open>undefined\<close> (\<open>None\<close> for the availability).\<close>

record draft_config =
  d_availability :: "availability_type option"
  d_quantity :: jsval
  d_customPrice :: jsval
  d_currentStock :: jsval




text \<open>\<open>_onSaveConfig\<close>: the configuration is rebuilt from the working copy and replaces
  the stored one.\<close>

definition ShopManager_onSaveConfig ::
  "string list \<Rightarrow> (string \<rightharpoonup> draft_config) \<Rightarrow> world \<Rightarrow> world" where
  "ShopManager_onSaveConfig selectedCompendiums itemConfigs w =
     setShopConfig
       \<lparr>compendiums = selectedCompendiums,
        items = (\<lambda>uuid. case itemConfigs uuid of
                   None \<Rightarrow> None
                 | Some d \<Rightarrow> Some
                     \<lparr>availability = (case d_availability d of None \<Rightarrow> UNLIMITED | Some a \<Rightarrow> a),
                      quantity = js_or (d_quantity d) (JNum 1),
                      customPrice = d_customPrice d,
                      currentStock = nullish (nullish (d_currentStock d) (d_quantity d)) JNull\<rparr>)\<rparr>
       w"

section \<open>Requests and results over the socket (module.js, player-shop.js)\<close>

datatype action = purchaseRequest | reserveRequest | purchaseResult | reserveResult

text \<open>The payloads \<open>SocketHandler.emitItemPurchased\<close> and \<open>emitItemReserved\<close> send.\<close>

datatype socket_event =
    ITEM_PURCHASED string jsval
  | ITEM_RESERVED string "string option" string

text \<open>What travels on the module's channel: a request \<open>{action, actorId, itemUuid}\<close> with
  its \<open>sender\<close> field when it has one, a result \<open>{action, result, targetUser}\<close>, and the
  notifications of \<open>SocketHandler.emit\<close>, \<open>{event, payload, sender}\<close>. A field the object
  does not have reads as \<open>undefined\<close>: \<open>None\<close>.\<close>

datatype socket_data =
    Request action string string "string option"
  | Response action result "string option"
  | Event socket_event string

datatype notification = Info message | Warn message

text \<open>A connected session: \<open>game.user.id\<close>, \<open>game.user.name\<close>, \<open>game.user.isGM\<close> and the actor selected in
  its shop window.\<close>

record session =
  user_id :: string
  user_name :: string
  isGM :: bool
  selectedActorId :: "string option"

text \<open>The listener the GM's session registers in the \<open>ready\<close> hook (module.js, lines
  45 to 74). It returns what it emits. A purchase that throws emits nothing.\<close>

definition onRequest ::
  "session \<Rightarrow> string \<Rightarrow> string \<Rightarrow> string \<Rightarrow> socket_data \<Rightarrow> world \<Rightarrow> socket_data list \<times> world" where
  "onRequest s now rid now' d w =
     (if \<not> isGM s then ([], w)
      else case d of
        Request a actorId itemUuid sender \<Rightarrow>
          if a = purchaseRequest then
            (case purchaseItem rid now' actorId itemUuid w of
               (Inl e, w') \<Rightarrow> ([], w')
             | (Inr r, w') \<Rightarrow>
                 ((if success r then [Event (ITEM_PURCHASED itemUuid (newStock r)) (user_id s)]
                   else [])
                  @ [Response purchaseResult r sender], w'))
          else if a = reserveRequest then
            (case reserveItem now rid now' actorId itemUuid w of
               (r, w') \<Rightarrow>
                 ((if success r
                   then [Event (ITEM_RESERVED itemUuid
                                  (map_option actor_name (actors w' actorId)) ''Player'')
                               (user_id s)]
                   else [])
                  @ [Response reserveResult r sender], w'))
          else ([], w)
      | Response a r t \<Rightarrow> ([], w)
      | Event e u \<Rightarrow> ([], w))"

text \<open>The listener every session registers for results (module.js, lines 77 to 89): the
  notifications it shows.\<close>

definition onResult :: "session \<Rightarrow> socket_data \<Rightarrow> notification list" where
  "onResult s d =
     (case d of
        Response a r targetUser \<Rightarrow>
          if targetUser = Some (user_id s) then
            (if a = purchaseResult \<or> a = reserveResult
             then [if success r then Info (message r) else Warn (message r)]
             else [])
          else []
      | Request a actorId itemUuid sender \<Rightarrow> []
      | Event e u \<Rightarrow> [])"

text \<open>\<open>PlayerShop._purchaseItem(uuid)\<close> and \<open>PlayerShop._reserveItem(uuid)\<close>: the
  notifications shown, the messages emitted and the new world. \<open>!this._selectedActorId\<close>
  holds for \<open>null\<close> and for the empty string.\<close>

definition PlayerShop_purchaseItem ::
  "session \<Rightarrow> string \<Rightarrow> string \<Rightarrow> string \<Rightarrow> world
     \<Rightarrow> notification list \<times> socket_data list \<times> world" where
  "PlayerShop_purchaseItem s rid now uuid w =
     (case selectedActorId s of
        None \<Rightarrow> ([Warn NoCharacterSelected], [], w)
      | Some actorId \<Rightarrow>
          if actorId = [] then ([Warn NoCharacterSelected], [], w)
          else if \<not> isShopOpen w then ([Warn ShopClosed], [], w)
          else if isGM s then
            (case purchaseItem rid now actorId uuid w of
               (Inl e, w') \<Rightarrow> ([], [], w')
             | (Inr r, w') \<Rightarrow>
                 if success r
                 then ([Info (message r)], [Event (ITEM_PURCHASED uuid (newStock r)) (user_id s)], w')
                 else ([Warn (message r)], [], w'))
          else ([], [Request purchaseRequest actorId uuid None], w))"

definition PlayerShop_reserveItem ::
  "session \<Rightarrow> string \<Rightarrow> string \<Rightarrow> string \<Rightarrow> string \<Rightarrow> world
     \<Rightarrow> notification list \<times> socket_data list \<times> world" where
  "PlayerShop_reserveItem s now rid now' uuid w =
     (case selectedActorId s of
        None \<Rightarrow> ([Warn NoCharacterSelected], [], w)
      | Some actorId \<Rightarrow>
          if actorId = [] then ([Warn NoCharacterSelected], [], w)
          else if \<not> isShopOpen w then ([Warn ShopClosed], [], w)
          else if isGM s then
            (case reserveItem now rid now' actorId uuid w of
               (r, w') \<Rightarrow>
                 if success r
                 then ([Info (message r)],
                       [Event (ITEM_RESERVED uuid (map_option actor_name (actors w' actorId))
                                 (user_name s))
                              (user_id s)], w')
                 else ([Warn (message r)], [], w'))
          else ([], [Request reserveRequest actorId uuid None], w))"

section \<open>The states the module can be in\<close>

text \<open>
  The \<open>shopConfig\<close> setting starts as its registered default, \<open>{compendiums: [], items: {}}\<close>,
  with an empty log and no reservation, and is written by the admin form's save, by
  \<open>updateStock\<close> and by a purchase only. The host may change actors, catalog, users and
  the currency name at any time.
\<close>

inductive reachable :: "world \<Rightarrow> bool" where
  initial: "shopConfig w = \<lparr>compendiums = [], items = Map.empty\<rparr> \<Longrightarrow> activityLog w = [] \<Longrightarrow>
            reservations w = Map.empty \<Longrightarrow> reachable w"
| save: "reachable w \<Longrightarrow> reachable (ShopManager_onSaveConfig selectedCompendiums itemConfigs w)"
| stock: "reachable w \<Longrightarrow> reachable (updateStock itemUuid v w)"
| purchase: "reachable w \<Longrightarrow> reachable (snd (purchaseItem rid now actorId itemUuid w))"
| reserve: "reachable w \<Longrightarrow> reachable (snd (reserveItem now rid now' actorId itemUuid w))"
| toggle: "reachable w \<Longrightarrow> reachable (snd (toggleShop w))"
| clear_log: "reachable w \<Longrightarrow> reachable (clearActivityLog w)"
| clear_reservations: "reachable w \<Longrightarrow> reachable (clearItemReservations itemUuid w)"
| host: "reachable w \<Longrightarrow>
         reachable (w\<lparr>actors := as, catalog := cat, users := us, currencyName := cn\<rparr>)"

section \<open>A small shop for concrete runs\<close>

definition alice :: actor where
  "alice = \<lparr>actor_name = ''Alice'', currency_gp = Some (JNum 50), inventory = [],
            ownership = Some [(''default'', 0), (''u1'', 3)]\<rparr>"

definition bob :: actor where
  "bob = \<lparr>actor_name = ''Bob'', currency_gp = Some (JNum 10), inventory = [],
          ownership = Some [(''default'', 0), (''u2'', 3)]\<rparr>"

definition sword :: item where
  "sword = \<lparr>item_id = ''s1'', item_name = ''Sword'', price_value = JNum 30\<rparr>"

definition entry :: "availability_type \<Rightarrow> jsval \<Rightarrow> jsval \<Rightarrow> jsval \<Rightarrow> item_config" where
  "entry av q cp st = \<lparr>availability = av, quantity = q, customPrice = cp, currentStock = st\<rparr>"

text \<open>The shop with the one item \<open>i1\<close> configured by \<open>c\<close>, two actors, an empty log and no
  reservation.\<close>

definition shop :: "bool \<Rightarrow> item_config \<Rightarrow> world" where
  "shop isOpen c =
     \<lparr>actors = [''a1'' \<mapsto> alice, ''a2'' \<mapsto> bob],
      catalog = [''i1'' \<mapsto> sword],
      users = [''u1'' \<mapsto> ''Ann'', ''u2'' \<mapsto> ''Ben''],
      currencyName = ''Ori'',
      shopOpen = isOpen,
      shopConfig = \<lparr>compendiums = [], items = [''i1'' \<mapsto> c]\<rparr>,
      activityLog = [],
      reservations = Map.empty\<rparr>"

text \<open>The same actors and catalog before the GM has configured anything, and a working
  copy of the admin form that makes \<open>i1\<close> a Limited item at a custom price of 10.\<close>

definition fresh_shop :: world where
  "fresh_shop =
     (shop True (entry UNLIMITED (JNum 1) JNull JNull))
       \<lparr>shopConfig := \<lparr>compendiums = [], items = Map.empty\<rparr>\<rparr>"

definition limited_draft :: "string \<rightharpoonup> draft_config" where
  "limited_draft = [''i1'' \<mapsto> \<lparr>d_availability = Some LIMITED, d_quantity = JUndefined,
                                 d_customPrice = JNum 10, d_currentStock = JUndefined\<rparr>]"

definition gm :: session where
  "gm = \<lparr>user_id = ''gm'', user_name = ''Gamemaster'', isGM = True, selectedActorId = None\<rparr>"

definition player1 :: session where
  "player1 = \<lparr>user_id = ''u1'', user_name = ''Ann'', isGM = False, selectedActorId = Some ''a1''\<rparr>"

definition blank_entry :: log_entry where
  "blank_entry = stamp ''id0'' ''t0''
     \<lparr>log_type = LogReservation, log_actorId = ''a1'', log_actorName = ''Alice'',
      log_playerName = ''Ann'', log_itemUuid = ''i1'', log_itemName = ''Sword'',
      log_price = None, log_currency = None\<rparr>"

text \<open>The same shop with a full log.\<close>

definition full_log_shop :: world where
  "full_log_shop =
     (shop True (entry UNLIMITED (JNum 1) JNull JNull))\<lparr>activityLog := replicate 500 blank_entry\<rparr>"

section \<open>Effective price\<close>

lemma getItemPrice_custom:
  "customPrice c = JNum p \<Longrightarrow> getItemPrice it (Some c) = JNum p"
  by (simp add: getItemPrice_def js_Number_def)

text \<open>
  Claim C4. The effective price is the entry's custom price whenever that is set to a
  value other than \<open>null\<close> and the empty string (so a number), whatever the catalog base
  price is; with no usable custom price it is the catalog base price when that is a
  non-zero number, and 0 when there is no base price either.
\<close>

theorem getItemPrice_effective:
  "getItemPrice it itemConfig =
     (let cp = (case itemConfig of None \<Rightarrow> JUndefined | Some c \<Rightarrow> customPrice c) in
      case cp of
        JNum p \<Rightarrow> JNum p
      | JNaN \<Rightarrow> JNaN
      | _ \<Rightarrow> (case price_value it of
                JNum b \<Rightarrow> JNum b
              | _ \<Rightarrow> JNum 0))"
  by (simp add: getItemPrice_def js_Number_def js_or_def Let_def
           split: option.splits jsval.splits)


section \<open>The purchase protocol, branch by branch\<close>

lemmas run_defs =
  purchaseItem_def reserveItem_def Let_def shop_def entry_def alice_def bob_def sword_def
  getShopConfig_def nullish_def js_le_def getItemPrice_def js_Number_def canAfford_def
  js_or_def js_ge_def js_sub_def actor_update_gp_def createEmbeddedDocuments_def
  setShopConfig_def addActivityLog_def getActivityLog_def stamp_def playerNameOf_def
  ownerId_def toObject_without_id_def getCurrencyName_def failure_def getAvailableStock_def
  addReservation_def getReservations_def reservationsOf_def

lemma purchaseItem_sold_out:
  assumes "actors w actorId = Some a" "catalog w itemUuid = Some it"
    "items (getShopConfig w) itemUuid = Some c"
    "availability c = LIMITED" "js_le (nullish (currentStock c) (quantity c)) (JNum 0)"
  shows "purchaseItem rid now actorId itemUuid w = (Inr (failure ItemSoldOut), w)"
  using assms by (simp add: purchaseItem_def Let_def)

lemma purchaseItem_not_enough:
  assumes "actors w actorId = Some a" "catalog w itemUuid = Some it"
    "items (getShopConfig w) itemUuid = Some c"
    "\<not> (availability c = LIMITED \<and> js_le (nullish (currentStock c) (quantity c)) (JNum 0))"
    "\<not> canAfford a (getItemPrice it (Some c))"
  shows "purchaseItem rid now actorId itemUuid w =
           (Inr (failure (NotEnoughGold (getCurrencyName w))), w)"
proof (cases "availability c = LIMITED")
  case True
  with assms show ?thesis by (simp add: purchaseItem_def Let_def)
next
  case False
  with assms show ?thesis by (simp add: purchaseItem_def Let_def)
qed

lemma purchaseItem_throws:
  assumes "actors w actorId = Some a" "catalog w itemUuid = Some it"
    "items (getShopConfig w) itemUuid = Some c"
    "\<not> (availability c = LIMITED \<and> js_le (nullish (currentStock c) (quantity c)) (JNum 0))"
    "canAfford a (getItemPrice it (Some c))" "currency_gp a = None"
  shows "purchaseItem rid now actorId itemUuid w = (Inl TypeError, w)"
proof (cases "availability c = LIMITED")
  case True
  with assms show ?thesis by (simp add: purchaseItem_def Let_def)
next
  case False
  with assms show ?thesis by (simp add: purchaseItem_def Let_def)
qed

lemma purchaseItem_success:
  assumes "actors w actorId = Some a" "catalog w itemUuid = Some it"
    "items (getShopConfig w) itemUuid = Some c"
    "\<not> (availability c = LIMITED \<and> js_le (nullish (currentStock c) (quantity c)) (JNum 0))"
    "canAfford a (getItemPrice it (Some c))" "currency_gp a = Some g"
  shows "\<exists>r w'. purchaseItem rid now actorId itemUuid w = (Inr r, w') \<and> success r"
proof (cases "availability c = LIMITED")
  case True
  with assms show ?thesis by (simp add: purchaseItem_def Let_def)
next
  case False
  with assms show ?thesis by (simp add: purchaseItem_def Let_def)
qed




lemma purchaseItem_success_world:
  assumes "actors w actorId = Some a" "catalog w itemUuid = Some it"
    "items (getShopConfig w) itemUuid = Some c"
    "\<not> (availability c = LIMITED \<and> js_le (nullish (currentStock c) (quantity c)) (JNum 0))"
    "canAfford a (getItemPrice it (Some c))" "currency_gp a = Some g"
    "purchaseItem rid now actorId itemUuid w = (r, w')"
  shows "actors w' = (actors w)(actorId \<mapsto>
            a\<lparr>currency_gp := Some (js_sub g (getItemPrice it (Some c))),
              inventory := inventory a @ [toObject_without_id it]\<rparr>)"
    and "shopConfig w' =
           (if availability c = LIMITED
            then (shopConfig w)\<lparr>items := (items (shopConfig w))(itemUuid \<mapsto>
                   c\<lparr>currentStock := js_sub (nullish (currentStock c) (quantity c)) (JNum 1)\<rparr>)\<rparr>
            else shopConfig w)"
    and "reservations w' = reservations w" and "shopOpen w' = shopOpen w"
    and "catalog w' = catalog w" and "users w' = users w"
    and "\<exists>e. activityLog w' =
           (if length (activityLog w) < 500 then e # activityLog w
            else butlast (e # activityLog w))"
    and "\<exists>r'. r = Inr r' \<and> success r'"
proof -
  have eq: "purchaseItem rid now actorId itemUuid w =
    (Inr \<lparr>success = True,
          message = PurchaseSuccess (item_name it) (getItemPrice it (Some c)) (getCurrencyName w),
          newStock = (if availability c = LIMITED
                      then js_sub (nullish (currentStock c) (quantity c)) (JNum 1) else JNull)\<rparr>,
     addActivityLog rid now
       \<lparr>log_type = LogPurchase, log_actorId = actorId, log_actorName = actor_name a,
        log_playerName = playerNameOf w a, log_itemUuid = itemUuid, log_itemName = item_name it,
        log_price = Some (getItemPrice it (Some c)), log_currency = Some (getCurrencyName w)\<rparr>
       ((if availability c = LIMITED
         then setShopConfig ((getShopConfig w)\<lparr>items := (items (getShopConfig w))(itemUuid \<mapsto>
                   c\<lparr>currentStock := js_sub (nullish (currentStock c) (quantity c)) (JNum 1)\<rparr>)\<rparr>)
         else (\<lambda>x. x))
        (createEmbeddedDocuments actorId [toObject_without_id it]
          (actor_update_gp actorId (js_sub g (getItemPrice it (Some c))) w))))"
  proof (cases "availability c = LIMITED")
    case True
    with assms(1-6) show ?thesis by (simp add: purchaseItem_def Let_def)
  next
    case False
    with assms(1-6) show ?thesis by (simp add: purchaseItem_def Let_def)
  qed
  from eq assms(7) have r: "r = Inr \<lparr>success = True,
          message = PurchaseSuccess (item_name it) (getItemPrice it (Some c)) (getCurrencyName w),
          newStock = (if availability c = LIMITED
                      then js_sub (nullish (currentStock c) (quantity c)) (JNum 1) else JNull)\<rparr>"
    and w': "w' = addActivityLog rid now
       \<lparr>log_type = LogPurchase, log_actorId = actorId, log_actorName = actor_name a,
        log_playerName = playerNameOf w a, log_itemUuid = itemUuid, log_itemName = item_name it,
        log_price = Some (getItemPrice it (Some c)), log_currency = Some (getCurrencyName w)\<rparr>
       ((if availability c = LIMITED
         then setShopConfig ((getShopConfig w)\<lparr>items := (items (getShopConfig w))(itemUuid \<mapsto>
                   c\<lparr>currentStock := js_sub (nullish (currentStock c) (quantity c)) (JNum 1)\<rparr>)\<rparr>)
         else (\<lambda>x. x))
        (createEmbeddedDocuments actorId [toObject_without_id it]
          (actor_update_gp actorId (js_sub g (getItemPrice it (Some c))) w)))"
    by simp_all
  from r show "\<exists>r'. r = Inr r' \<and> success r'" by simp
  from w' assms(1) show "actors w' = (actors w)(actorId \<mapsto>
            a\<lparr>currency_gp := Some (js_sub g (getItemPrice it (Some c))),
              inventory := inventory a @ [toObject_without_id it]\<rparr>)"
    by (simp add: addActivityLog_def Let_def setShopConfig_def createEmbeddedDocuments_def
          actor_update_gp_def)
  from w' assms(1) show "shopConfig w' =
           (if availability c = LIMITED
            then (shopConfig w)\<lparr>items := (items (shopConfig w))(itemUuid \<mapsto>
                   c\<lparr>currentStock := js_sub (nullish (currentStock c) (quantity c)) (JNum 1)\<rparr>)\<rparr>
            else shopConfig w)"
    by (simp add: addActivityLog_def Let_def setShopConfig_def createEmbeddedDocuments_def
          actor_update_gp_def getShopConfig_def)
  from w' assms(1) show "reservations w' = reservations w"
    by (simp add: addActivityLog_def Let_def setShopConfig_def createEmbeddedDocuments_def
          actor_update_gp_def)
  from w' assms(1) show "shopOpen w' = shopOpen w"
    by (simp add: addActivityLog_def Let_def setShopConfig_def createEmbeddedDocuments_def
          actor_update_gp_def)
  from w' assms(1) show "catalog w' = catalog w"
    by (simp add: addActivityLog_def Let_def setShopConfig_def createEmbeddedDocuments_def
          actor_update_gp_def)
  from w' assms(1) show "users w' = users w"
    by (simp add: addActivityLog_def Let_def setShopConfig_def createEmbeddedDocuments_def
          actor_update_gp_def)
  from w' assms(1) show "\<exists>e. activityLog w' =
           (if length (activityLog w) < 500 then e # activityLog w
            else butlast (e # activityLog w))"
    by (auto simp add: addActivityLog_def Let_def setShopConfig_def createEmbeddedDocuments_def
          actor_update_gp_def getActivityLog_def)
qed

lemma purchaseItem_succeeded_cases:
  assumes "purchaseItem rid now actorId itemUuid w = (r, w')" "succeeded r"
  shows "\<exists>a it c g. actors w actorId = Some a \<and> catalog w itemUuid = Some it \<and>
     items (getShopConfig w) itemUuid = Some c \<and>
     \<not> (availability c = LIMITED \<and> js_le (nullish (currentStock c) (quantity c)) (JNum 0)) \<and>
     canAfford a (getItemPrice it (Some c)) \<and> currency_gp a = Some g"
proof (cases "actors w actorId")
  case None
  with assms show ?thesis by (auto simp: purchaseItem_def failure_def)
next
  case (Some a)
  note A = this
  show ?thesis
  proof (cases "catalog w itemUuid")
    case None
    with A assms show ?thesis by (auto simp: purchaseItem_def failure_def)
  next
    case (Some it)
    note I = this
    show ?thesis
    proof (cases "items (getShopConfig w) itemUuid")
      case None
      with A I assms show ?thesis by (auto simp: purchaseItem_def Let_def failure_def)
    next
      case (Some c)
      note C = this
      show ?thesis
      proof (cases "availability c = LIMITED \<and> js_le (nullish (currentStock c) (quantity c)) (JNum 0)")
        case True
        then have "purchaseItem rid now actorId itemUuid w = (Inr (failure ItemSoldOut), w)"
          using purchaseItem_sold_out [OF A I C] by simp
        with assms show ?thesis by (auto simp: failure_def)
      next
        case False
        note S = this
        show ?thesis
        proof (cases "canAfford a (getItemPrice it (Some c))")
          case False
          have "purchaseItem rid now actorId itemUuid w =
                  (Inr (failure (NotEnoughGold (getCurrencyName w))), w)"
            by (rule purchaseItem_not_enough [OF A I C S False])
          with assms show ?thesis by (auto simp: failure_def)
        next
          case True
          note P = this
          show ?thesis
          proof (cases "currency_gp a")
            case None
            from purchaseItem_throws [OF A I C S P None] assms show ?thesis by auto
          next
            case (Some g)
            with A I C S P show ?thesis by blast
          qed
        qed
      qed
    qed
  qed
qed


lemma purchaseItem_failed_world:
  assumes "purchaseItem rid now actorId itemUuid w = (r, w')" "\<not> succeeded r"
  shows "w' = w"
proof (cases r)
  case (Inl e)
  with assms(1) show ?thesis
    by (auto simp: purchaseItem_def Let_def split: option.splits if_splits)
next
  case (Inr x)
  with assms have "purchaseItem rid now actorId itemUuid w = (Inr x, w')" "\<not> success x"
    by simp_all
  then show ?thesis
    by (auto simp: purchaseItem_def Let_def failure_def split: option.splits if_splits)
qed

lemma purchaseItem_entry:
  assumes p: "purchaseItem rid now actorId itemUuid w = (r, w')"
    and c': "items (shopConfig w') u = Some c'"
  shows "\<exists>c. items (shopConfig w) u = Some c \<and>
           (c' = c \<or>
            (u = itemUuid \<and> availability c = LIMITED \<and>
             \<not> js_le (nullish (currentStock c) (quantity c)) (JNum 0) \<and>
             c' = c\<lparr>currentStock := js_sub (nullish (currentStock c) (quantity c)) (JNum 1)\<rparr>))"
proof (cases "succeeded r")
  case False
  from purchaseItem_failed_world [OF p False] c' show ?thesis by simp
next
  case True
  from purchaseItem_succeeded_cases [OF p True] obtain a it c g where
    A: "actors w actorId = Some a" and I: "catalog w itemUuid = Some it"
    and C: "items (getShopConfig w) itemUuid = Some c"
    and S: "\<not> (availability c = LIMITED \<and> js_le (nullish (currentStock c) (quantity c)) (JNum 0))"
    and P: "canAfford a (getItemPrice it (Some c))" and G: "currency_gp a = Some g"
    by blast
  note W = purchaseItem_success_world(2) [OF A I C S P G p]
  show ?thesis
  proof (cases "availability c = LIMITED")
    case False
    with W c' show ?thesis by simp
  next
    case True
    note L = this
    with S have N: "\<not> js_le (nullish (currentStock c) (quantity c)) (JNum 0)" by simp
    show ?thesis
    proof (cases "u = itemUuid")
      case True
      with W L c' C N show ?thesis by (auto simp: getShopConfig_def)
    next
      case False
      with W L c' show ?thesis by simp
    qed
  qed
qed


section \<open>Failed purchases change nothing\<close>

text \<open>
  Claim C1. A purchase that returns a failure (actor not found, item not found, item not
  configured, sold out, not enough gold) returns exactly the failure of the first check
  that did not pass, and the world after the call (every actor's balance and inventory,
  the shop configuration with its stock, the activity log) is the world before it.
\<close>

theorem purchaseItem_failure_no_mutation:
  assumes "purchaseItem rid now actorId itemUuid w = (Inr r, w')" and "\<not> success r"
  shows "w' = w \<and>
    ((actors w actorId = None \<and> r = failure ActorNotFound) \<or>
     (actors w actorId \<noteq> None \<and> catalog w itemUuid = None \<and> r = failure ItemNotFound) \<or>
     (actors w actorId \<noteq> None \<and> catalog w itemUuid \<noteq> None \<and>
        items (getShopConfig w) itemUuid = None \<and> r = failure ItemNotConfigured) \<or>
     (\<exists>a it c. actors w actorId = Some a \<and> catalog w itemUuid = Some it \<and>
        items (getShopConfig w) itemUuid = Some c \<and>
        ((availability c = LIMITED \<and> js_le (nullish (currentStock c) (quantity c)) (JNum 0) \<and>
          r = failure ItemSoldOut) \<or>
         (\<not> (availability c = LIMITED \<and> js_le (nullish (currentStock c) (quantity c)) (JNum 0)) \<and>
          \<not> canAfford a (getItemPrice it (Some c)) \<and>
          r = failure (NotEnoughGold (getCurrencyName w))))))"
proof (cases "actors w actorId")
  case None
  with assms show ?thesis by (simp add: purchaseItem_def)
next
  case (Some a)
  note A = this
  show ?thesis
  proof (cases "catalog w itemUuid")
    case None
    with A assms show ?thesis by (simp add: purchaseItem_def)
  next
    case (Some it)
    note I = this
    show ?thesis
    proof (cases "items (getShopConfig w) itemUuid")
      case None
      with A I assms show ?thesis by (simp add: purchaseItem_def Let_def)
    next
      case (Some c)
      note C = this
      show ?thesis
      proof (cases "availability c = LIMITED \<and> js_le (nullish (currentStock c) (quantity c)) (JNum 0)")
        case True
        then have "purchaseItem rid now actorId itemUuid w = (Inr (failure ItemSoldOut), w)"
          using purchaseItem_sold_out [OF A I C] by simp
        with A I C True assms show ?thesis by auto
      next
        case False
        note S = this
        show ?thesis
        proof (cases "canAfford a (getItemPrice it (Some c))")
          case False
          have "purchaseItem rid now actorId itemUuid w =
                  (Inr (failure (NotEnoughGold (getCurrencyName w))), w)"
            by (rule purchaseItem_not_enough [OF A I C S False])
          with A I C S False assms show ?thesis by auto
        next
          case True
          note P = this
          show ?thesis
          proof (cases "currency_gp a")
            case None
            from purchaseItem_throws [OF A I C S P None] assms show ?thesis by simp
          next
            case (Some g)
            from purchaseItem_success [OF A I C S P Some, of rid now] assms show ?thesis by auto
          qed
        qed
      qed
    qed
  qed
qed

theorem purchaseItem_failure_no_mutation_witness:
  "\<exists>r w'. purchaseItem ''id1'' ''t1'' ''a2'' ''i1'' (shop True (entry UNLIMITED (JNum 1) JNull JNull))
             = (Inr r, w') \<and> \<not> success r \<and>
          w' = shop True (entry UNLIMITED (JNum 1) JNull JNull) \<and>
          r = failure (NotEnoughGold ''Ori'') \<and>
          map_option currency_gp (actors w' ''a2'') = Some (Some (JNum 10)) \<and>
          activityLog w' = []"
proof -
  let ?w = "shop True (entry UNLIMITED (JNum 1) JNull JNull)"
  have h1: "purchaseItem ''id1'' ''t1'' ''a2'' ''i1'' ?w = (Inr (failure (NotEnoughGold ''Ori'')), ?w)"
    by (simp add: run_defs)
  have h2: "\<not> success (failure (NotEnoughGold ''Ori''))"
    by (simp add: failure_def)
  from purchaseItem_failure_no_mutation [OF h1 h2] have "?w = ?w" by simp
  with h1 h2 show ?thesis by (simp add: shop_def bob_def)
qed

section \<open>Limited stock\<close>







section \<open>The sold-out check\<close>

lemma purchaseItem_sold_out_iff:
  assumes "actors w actorId = Some a" "catalog w itemUuid = Some it"
    "items (getShopConfig w) itemUuid = Some c" "availability c = LIMITED"
    "nullish (currentStock c) (quantity c) \<noteq> JUndefined"
  shows "(purchaseItem rid now actorId itemUuid w = (Inr (failure ItemSoldOut), w)) =
         js_le (getAvailableStock itemUuid w) (JNum 0)"
proof (cases "js_le (nullish (currentStock c) (quantity c)) (JNum 0)")
  case True
  from purchaseItem_sold_out [OF assms(1-4) True, of rid now] True assms(3-5)
  show ?thesis by (auto simp: getAvailableStock_def nullish_def js_le_def)
next
  case False
  then have S: "\<not> (availability c = LIMITED \<and> js_le (nullish (currentStock c) (quantity c)) (JNum 0))"
    by simp
  have ne: "purchaseItem rid now actorId itemUuid w \<noteq> (Inr (failure ItemSoldOut), w)"
  proof (cases "canAfford a (getItemPrice it (Some c))")
    case False
    from purchaseItem_not_enough [OF assms(1-3) S False, of rid now]
    show ?thesis by (simp add: failure_def)
  next
    case True
    show ?thesis
    proof (cases "currency_gp a")
      case None
      from purchaseItem_throws [OF assms(1-3) S True None, of rid now] show ?thesis by simp
    next
      case (Some g)
      from purchaseItem_success [OF assms(1-3) S True Some, of rid now]
      show ?thesis by (auto simp: failure_def)
    qed
  qed
  from False assms(3-5) have "\<not> js_le (getAvailableStock itemUuid w) (JNum 0)"
    by (auto simp: getAvailableStock_def nullish_def js_le_def split: if_splits)
  with ne show ?thesis by simp
qed


section \<open>The bounded activity log\<close>

lemma take_append_take: "take n (xs @ take n ys) = take n (xs @ ys)"
  by (simp add: min_def)

lemma addActivityLog_take:
  assumes h: "length (activityLog w) \<le> 500"
  shows "activityLog (addActivityLog rid now e w) = take 500 (stamp rid now e # activityLog w)"
proof (cases "length (activityLog w) = 500")
  case True
  then have "butlast (stamp rid now e # activityLog w) = take 500 (stamp rid now e # activityLog w)"
    by (simp add: butlast_conv_take)
  with True show ?thesis by (simp add: addActivityLog_def getActivityLog_def Let_def)
next
  case False
  with h have "length (activityLog w) < 500" by simp
  then show ?thesis by (simp add: addActivityLog_def getActivityLog_def Let_def)
qed

lemma addActivityLog_full:
  assumes "length (activityLog w) = 500"
  shows "activityLog (addActivityLog rid now e w) = stamp rid now e # butlast (activityLog w)"
proof -
  from assms have "activityLog w \<noteq> []" by auto
  with assms show ?thesis by (simp add: addActivityLog_def getActivityLog_def Let_def)
qed

lemma appends_take:
  assumes "length (activityLog w) \<le> 500"
  shows "activityLog (appends es w) =
     take 500 (rev (map (\<lambda>(rid, now, e). stamp rid now e) es) @ activityLog w)"
  using assms
proof (induction es arbitrary: w)
  case Nil
  then show ?case by simp
next
  case (Cons x es)
  obtain rid now e where x: "x = (rid, now, e)" by (cases x) auto
  let ?f = "\<lambda>(rid, now, e). stamp rid now e"
  let ?w1 = "addActivityLog rid now e w"
  have l1: "activityLog ?w1 = take 500 (stamp rid now e # activityLog w)"
    by (rule addActivityLog_take [OF Cons.prems])
  then have "length (activityLog ?w1) \<le> 500" by simp
  from Cons.IH [OF this]
  have "activityLog (appends es ?w1) = take 500 (rev (map ?f es) @ activityLog ?w1)" .
  also have "\<dots> = take 500 (rev (map ?f es) @ take 500 (stamp rid now e # activityLog w))"
    by (simp only: l1)
  also have "\<dots> = take 500 (rev (map ?f es) @ (stamp rid now e # activityLog w))"
    by (rule take_append_take)
  also have "\<dots> = take 500 (rev (map ?f (x # es)) @ activityLog w)"
    by (simp add: x)
  finally show ?case by (simp add: x)
qed

lemma full_log_length: "length (activityLog full_log_shop) = 500"
  by (simp add: full_log_shop_def)


text \<open>
  Claim C9. Starting from a log of at most 500 entries, after any sequence of appends the
  log has at most 500 entries and holds the most recent ones, newest first; an append to
  a log of exactly 500 entries drops exactly the oldest (the last) entry.
\<close>

theorem activityLog_bounded:
  assumes "length (activityLog w) \<le> 500"
  shows "length (activityLog (appends es w)) \<le> 500 \<and>
         activityLog (appends es w) =
           take 500 (rev (map (\<lambda>(rid, now, e). stamp rid now e) es) @ activityLog w) \<and>
         (length (activityLog w) = 500 \<longrightarrow>
            activityLog (addActivityLog rid now e w) = stamp rid now e # butlast (activityLog w))"
proof (intro conjI impI)
  show eq: "activityLog (appends es w) =
           take 500 (rev (map (\<lambda>(rid, now, e). stamp rid now e) es) @ activityLog w)"
    by (rule appends_take [OF assms])
  show "length (activityLog (appends es w)) \<le> 500"
    by (simp only: eq length_take min.cobounded2)
  assume "length (activityLog w) = 500"
  then show "activityLog (addActivityLog rid now e w) = stamp rid now e # butlast (activityLog w)"
    by (rule addActivityLog_full)
qed

theorem activityLog_bounded_witness:
  "length (activityLog full_log_shop) = 500 \<and>
   length (activityLog (appends [(''id1'', ''t1'', payload blank_entry)] full_log_shop)) \<le> 500 \<and>
   activityLog (addActivityLog ''id1'' ''t1'' (payload blank_entry) full_log_shop) =
     stamp ''id1'' ''t1'' (payload blank_entry) # butlast (activityLog full_log_shop)"
proof -
  have h: "length (activityLog full_log_shop) \<le> 500"
    by (simp only: full_log_length order_refl)
  from activityLog_bounded [OF h, of "[(''id1'', ''t1'', payload blank_entry)]" "''id1''" "''t1''"
      "payload blank_entry"] full_log_length
  show ?thesis by blast
qed



section \<open>Reservations\<close>

lemma find_actor_None:
  "(find (\<lambda>r. res_actorId r = a) l = None) = (a \<notin> set (map res_actorId l))"
  by (auto simp: find_None_iff)

lemma reserveItem_already:
  assumes "actors w a = Some ac" "catalog w i = Some it"
    "items (getShopConfig w) i = Some c" "availability c = RESERVATION"
    "a \<in> set (map res_actorId (reservationsOf w i))"
  shows "reserveItem now rid now' a i w = (failure AlreadyReserved, w)"
proof -
  from assms(5) obtain l where l: "getReservations w i = Some l"
    by (cases "getReservations w i") (simp_all add: reservationsOf_def)
  with assms(5) have "find (\<lambda>r. res_actorId r = a) l \<noteq> None"
    by (simp add: find_actor_None reservationsOf_def)
  then obtain x where "find (\<lambda>r. res_actorId r = a) l = Some x" by blast
  with l assms(1-4) show ?thesis by (simp add: reserveItem_def)
qed

lemma reserveItem_unchanged_on_failure:
  assumes "reserveItem now rid now' a i w = (r, w')" "\<not> success r"
  shows "w' = w"
  using assms
  by (auto simp: reserveItem_def Let_def failure_def split: option.splits if_splits)

lemma reserveItem_existing_fails:
  assumes "a \<in> set (map res_actorId (reservationsOf w i))"
    "reserveItem now rid now' a i w = (r, w')"
  shows "\<not> success r \<and> w' = w"
proof -
  from assms(1) obtain l where l: "getReservations w i = Some l"
    by (cases "getReservations w i") (simp_all add: reservationsOf_def)
  with assms(1) have "find (\<lambda>r. res_actorId r = a) l \<noteq> None"
    by (simp add: find_actor_None reservationsOf_def)
  then obtain x where x: "find (\<lambda>r. res_actorId r = a) l = Some x" by blast
  from assms(2) l x have "\<not> success r"
    by (auto simp: reserveItem_def Let_def failure_def split: option.splits if_splits)
  with reserveItem_unchanged_on_failure [OF assms(2)] show ?thesis by simp
qed

lemma reserveItem_success_world:
  assumes "actors w a = Some ac" "catalog w i = Some it"
    "items (getShopConfig w) i = Some c" "availability c = RESERVATION"
    "a \<notin> set (map res_actorId (reservationsOf w i))"
    "reserveItem now rid now' a i w = (r, w')"
  shows "success r"
    and "reservations w' = (reservations w)(i \<mapsto> reservationsOf w i @
            [\<lparr>res_actorId = a, res_actorName = actor_name ac,
              res_playerName = playerNameOf w ac, res_timestamp = now\<rparr>])"
    and "actors w' = actors w" and "catalog w' = catalog w" and "shopConfig w' = shopConfig w"
proof -
  have f: "(case getReservations w i of None \<Rightarrow> None
            | Some l \<Rightarrow> find (\<lambda>r. res_actorId r = a) l) = None"
    using assms(5) by (auto simp: reservationsOf_def find_None_iff split: option.splits)
  have eq: "reserveItem now rid now' a i w =
    (\<lparr>success = True, message = ReservationSuccess (item_name it), newStock = JUndefined\<rparr>,
     addActivityLog rid now'
        \<lparr>log_type = LogReservation, log_actorId = a, log_actorName = actor_name ac,
         log_playerName = playerNameOf w ac, log_itemUuid = i, log_itemName = item_name it,
         log_price = None, log_currency = None\<rparr>
        (addReservation now i a (actor_name ac) (playerNameOf w ac) w))"
    using assms(1-4) f by (simp add: reserveItem_def Let_def)
  with assms(6) show "success r" by auto
  from eq assms(6) have w': "w' = addActivityLog rid now'
        \<lparr>log_type = LogReservation, log_actorId = a, log_actorName = actor_name ac,
         log_playerName = playerNameOf w ac, log_itemUuid = i, log_itemName = item_name it,
         log_price = None, log_currency = None\<rparr>
        (addReservation now i a (actor_name ac) (playerNameOf w ac) w)" by simp
  show "reservations w' = (reservations w)(i \<mapsto> reservationsOf w i @
            [\<lparr>res_actorId = a, res_actorName = actor_name ac,
              res_playerName = playerNameOf w ac, res_timestamp = now\<rparr>])"
    by (simp add: w' addActivityLog_def addReservation_def Let_def reservationsOf_def
          getReservations_def)
  show "actors w' = actors w"
    by (simp add: w' addActivityLog_def addReservation_def Let_def)
  show "catalog w' = catalog w"
    by (simp add: w' addActivityLog_def addReservation_def Let_def)
  show "shopConfig w' = shopConfig w"
    by (simp add: w' addActivityLog_def addReservation_def Let_def)
qed

lemma reserveItem_success_cases:
  assumes "reserveItem now rid now' a i w = (r, w')" "success r"
  shows "\<exists>ac it c. actors w a = Some ac \<and> catalog w i = Some it \<and>
     items (getShopConfig w) i = Some c \<and> availability c = RESERVATION \<and>
     a \<notin> set (map res_actorId (reservationsOf w i))"
proof -
  from assms obtain ac where A: "actors w a = Some ac"
    by (cases "actors w a") (auto simp: reserveItem_def failure_def)
  from assms A obtain it where I: "catalog w i = Some it"
    by (cases "catalog w i") (auto simp: reserveItem_def failure_def)
  from assms A I obtain c where C: "items (getShopConfig w) i = Some c"
    by (cases "items (getShopConfig w) i") (auto simp: reserveItem_def failure_def)
  from assms A I C have R: "availability c = RESERVATION"
    by (cases "availability c = RESERVATION") (auto simp: reserveItem_def failure_def)
  have "a \<notin> set (map res_actorId (reservationsOf w i))"
  proof
    assume "a \<in> set (map res_actorId (reservationsOf w i))"
    from reserveItem_existing_fails [OF this assms(1)] assms(2) show False by simp
  qed
  with A I C R show ?thesis by blast
qed

lemma reserveItem_twice:
  assumes "reserveItem now rid now' a i w = (r, w')" "success r"
  shows "reserveItem now2 rid2 now2' a i w' = (failure AlreadyReserved, w')"
proof -
  from reserveItem_success_cases [OF assms] obtain ac it c where
    A: "actors w a = Some ac" and I: "catalog w i = Some it"
    and C: "items (getShopConfig w) i = Some c" and R: "availability c = RESERVATION"
    and N: "a \<notin> set (map res_actorId (reservationsOf w i))" by blast
  note W = reserveItem_success_world [OF A I C R N assms(1)]
  from W(2) have "a \<in> set (map res_actorId (reservationsOf w' i))"
    by (simp add: reservationsOf_def getReservations_def)
  moreover from W(3) A have "actors w' a = Some ac" by simp
  moreover from W(4) I have "catalog w' i = Some it" by simp
  moreover from W(5) C have "items (getShopConfig w') i = Some c" by (simp add: getShopConfig_def)
  ultimately show ?thesis using R by (intro reserveItem_already) auto
qed

lemma reserveItem_distinct:
  assumes "distinct (map res_actorId (reservationsOf w j))"
    "reserveItem now rid now' a i w = (r, w')"
  shows "distinct (map res_actorId (reservationsOf w' j))"
proof (cases "success r")
  case False
  from reserveItem_unchanged_on_failure [OF assms(2) False] assms(1) show ?thesis by simp
next
  case True
  from reserveItem_success_cases [OF assms(2) True] obtain ac it c where
    A: "actors w a = Some ac" and I: "catalog w i = Some it"
    and C: "items (getShopConfig w) i = Some c" and R: "availability c = RESERVATION"
    and N: "a \<notin> set (map res_actorId (reservationsOf w i))" by blast
  note W = reserveItem_success_world [OF A I C R N assms(2)]
  show ?thesis
  proof (cases "j = i")
    case True
    with W(2) assms(1) N show ?thesis
      by (simp add: reservationsOf_def getReservations_def)
  next
    case False
    with W(2) assms(1) show ?thesis
      by (simp add: reservationsOf_def getReservations_def)
  qed
qed

text \<open>
  Claim C6. There is at most one reservation per item and actor: \<open>reserveItem\<close> by an
  actor who already holds a reservation for the item fails and changes nothing; the
  attempt right after a successful one fails with \<open>AlreadyReserved\<close>; a list without
  duplicate actors stays so; and another actor, not yet in the item's list, succeeds and
  adds one record of its own after the existing ones.
\<close>

theorem one_reservation_per_actor:
  "(a \<in> set (map res_actorId (reservationsOf w i)) \<and>
      reserveItem now rid now' a i w = (r, w') \<longrightarrow> \<not> success r \<and> w' = w) \<and>
   (reserveItem now rid now' a i w = (r, w') \<and> success r \<longrightarrow>
      reserveItem now2 rid2 now2' a i w' = (failure AlreadyReserved, w')) \<and>
   (distinct (map res_actorId (reservationsOf w j)) \<and>
      reserveItem now rid now' a i w = (r, w') \<longrightarrow>
      distinct (map res_actorId (reservationsOf w' j))) \<and>
   (actors w b = Some ab \<and> catalog w i = Some it \<and> items (getShopConfig w) i = Some c \<and>
      availability c = RESERVATION \<and> b \<notin> set (map res_actorId (reservationsOf w i)) \<and>
      reserveItem now3 rid3 now3' b i w = (r3, w3) \<longrightarrow>
      success r3 \<and>
      reservationsOf w3 i = reservationsOf w i @
         [\<lparr>res_actorId = b, res_actorName = actor_name ab,
           res_playerName = playerNameOf w ab, res_timestamp = now3\<rparr>])"
proof (intro conjI impI)
  assume "a \<in> set (map res_actorId (reservationsOf w i)) \<and>
      reserveItem now rid now' a i w = (r, w')"
  then have "\<not> success r \<and> w' = w" using reserveItem_existing_fails by blast
  then show "\<not> success r" and "w' = w" by simp_all
next
  assume "reserveItem now rid now' a i w = (r, w') \<and> success r"
  then show "reserveItem now2 rid2 now2' a i w' = (failure AlreadyReserved, w')"
    using reserveItem_twice by blast
next
  assume "distinct (map res_actorId (reservationsOf w j)) \<and>
      reserveItem now rid now' a i w = (r, w')"
  then show "distinct (map res_actorId (reservationsOf w' j))"
    using reserveItem_distinct by blast
next
  assume h: "actors w b = Some ab \<and> catalog w i = Some it \<and> items (getShopConfig w) i = Some c \<and>
      availability c = RESERVATION \<and> b \<notin> set (map res_actorId (reservationsOf w i)) \<and>
      reserveItem now3 rid3 now3' b i w = (r3, w3)"
  then have A: "actors w b = Some ab" and I: "catalog w i = Some it"
    and C: "items (getShopConfig w) i = Some c" and R: "availability c = RESERVATION"
    and N: "b \<notin> set (map res_actorId (reservationsOf w i))"
    and P: "reserveItem now3 rid3 now3' b i w = (r3, w3)" by simp_all
  note W = reserveItem_success_world [OF A I C R N P]
  from W(1) show "success r3" .
  from W(2) show "reservationsOf w3 i = reservationsOf w i @
         [\<lparr>res_actorId = b, res_actorName = actor_name ab,
           res_playerName = playerNameOf w ab, res_timestamp = now3\<rparr>]"
    by (simp add: reservationsOf_def getReservations_def)
qed

theorem one_reservation_per_actor_witness:
  "success (fst (reserveItem ''t1'' ''id1'' ''t1'' ''a1'' ''i1''
                   (shop True (entry RESERVATION (JNum 1) JNull JNull)))) \<and>
   reserveItem ''t2'' ''id2'' ''t2'' ''a1'' ''i1''
     (snd (reserveItem ''t1'' ''id1'' ''t1'' ''a1'' ''i1''
             (shop True (entry RESERVATION (JNum 1) JNull JNull))))
   = (failure AlreadyReserved,
      snd (reserveItem ''t1'' ''id1'' ''t1'' ''a1'' ''i1''
             (shop True (entry RESERVATION (JNum 1) JNull JNull)))) \<and>
   map res_actorId (reservationsOf
     (snd (reserveItem ''t3'' ''id3'' ''t3'' ''a2'' ''i1''
        (snd (reserveItem ''t1'' ''id1'' ''t1'' ''a1'' ''i1''
             (shop True (entry RESERVATION (JNum 1) JNull JNull)))))) ''i1'') = [''a1'', ''a2'']"
proof -
  let ?w0 = "shop True (entry RESERVATION (JNum 1) JNull JNull)"
  let ?p1 = "reserveItem ''t1'' ''id1'' ''t1'' ''a1'' ''i1'' ?w0"
  let ?w1 = "snd ?p1"
  let ?p3 = "reserveItem ''t3'' ''id3'' ''t3'' ''a2'' ''i1'' ?w1"
  have s1: "success (fst ?p1)" by (simp add: run_defs)
  have e1: "?p1 = (fst ?p1, ?w1)" by simp
  have rs1: "reservationsOf ?w1 ''i1'' =
     [\<lparr>res_actorId = ''a1'', res_actorName = ''Alice'', res_playerName = ''Ann'',
       res_timestamp = ''t1''\<rparr>]"
    by (simp add: run_defs)
  have b: "actors ?w1 ''a2'' = Some bob" by (simp add: run_defs)
  have i: "catalog ?w1 ''i1'' = Some sword" by (simp add: run_defs)
  have c: "items (getShopConfig ?w1) ''i1'' = Some (entry RESERVATION (JNum 1) JNull JNull)"
    by (simp add: run_defs)
  have r: "availability (entry RESERVATION (JNum 1) JNull JNull) = RESERVATION"
    by (simp add: entry_def)
  have n: "''a2'' \<notin> set (map res_actorId (reservationsOf ?w1 ''i1''))"
    by (simp only: rs1) simp
  have e3: "?p3 = (fst ?p3, snd ?p3)" by simp
  note T = one_reservation_per_actor [of "''a1''" ?w0 "''i1''" "''t1''" "''id1''" "''t1''"
      "fst ?p1" ?w1 "''t2''" "''id2''" "''t2''" "''i1''" "''a2''" ab it' c' now3 rid3 now3' r3 w3]
  from T e1 s1 have two: "reserveItem ''t2'' ''id2'' ''t2'' ''a1'' ''i1'' ?w1
       = (failure AlreadyReserved, ?w1)" by blast
  note U = one_reservation_per_actor [of a ?w1 "''i1''" now rid now' r w' now2 rid2 now2' j
      "''a2''" bob sword "entry RESERVATION (JNum 1) JNull JNull" "''t3''" "''id3''" "''t3''"
      "fst ?p3" "snd ?p3"]
  from U b i c r n e3 have "reservationsOf (snd ?p3) ''i1'' = reservationsOf ?w1 ''i1'' @
         [\<lparr>res_actorId = ''a2'', res_actorName = actor_name bob,
           res_playerName = playerNameOf ?w1 bob, res_timestamp = ''t3''\<rparr>]"
    by blast
  then have three: "map res_actorId (reservationsOf (snd ?p3) ''i1'') = [''a1'', ''a2'']"
    by (simp only: rs1) simp
  from s1 two three show ?thesis by blast
qed


section \<open>addReservation does not check\<close>

text \<open>
  Claim C7 says \<open>addReservation\<close> appends only when the pair is new and reports whether
  it appended. Called for a pair that is already reserved, it appends a second record.
\<close>

theorem addReservation_duplicate_counterexample:
  "''a1'' \<in> set (map res_actorId (reservationsOf
      (addReservation ''t1'' ''i1'' ''a1'' ''Alice'' ''Ann''
         (shop True (entry RESERVATION (JNum 1) JNull JNull))) ''i1'')) \<and>
   map res_actorId (reservationsOf
      (addReservation ''t2'' ''i1'' ''a1'' ''Alice'' ''Ann''
        (addReservation ''t1'' ''i1'' ''a1'' ''Alice'' ''Ann''
           (shop True (entry RESERVATION (JNum 1) JNull JNull)))) ''i1'') = [''a1'', ''a1'']"
  by (simp add: run_defs)


text \<open>
  Claim C7, as amended. \<open>addReservation\<close> appends one reservation for the given item and
  actor to the item's list in every state, also when the pair is already there, and
  returns no value; the check for an existing reservation is \<open>reserveItem\<close>'s.
\<close>

theorem addReservation_always_appends:
  "reservations (addReservation now itemUuid actorId actorName playerName w) =
     (reservations w)(itemUuid \<mapsto> reservationsOf w itemUuid @
        [\<lparr>res_actorId = actorId, res_actorName = actorName,
          res_playerName = playerName, res_timestamp = now\<rparr>]) \<and>
   length (reservationsOf (addReservation now itemUuid actorId actorName playerName w) itemUuid) =
     Suc (length (reservationsOf w itemUuid)) \<and>
   actorId \<in> set (map res_actorId
     (reservationsOf (addReservation now itemUuid actorId actorName playerName w) itemUuid))"
  by (simp add: addReservation_def reservationsOf_def getReservations_def Let_def)


section \<open>The shop-open flag\<close>

text \<open>The shop windows check the flag before anything else.\<close>

lemma PlayerShop_purchaseItem_closed:
  assumes "\<not> isShopOpen w"
  shows "snd (PlayerShop_purchaseItem s rid now uuid w) = ([], w)"
  using assms by (simp add: PlayerShop_purchaseItem_def split: option.splits)

lemma PlayerShop_reserveItem_closed:
  assumes "\<not> isShopOpen w"
  shows "snd (PlayerShop_reserveItem s now rid now' uuid w) = ([], w)"
  using assms by (simp add: PlayerShop_reserveItem_def split: option.splits)


text \<open>
  Claim C5. While the shop is closed no purchase or reservation should be accepted on any
  path. \<open>PlayerShop._purchaseItem\<close> refuses with the shop-closed warning, but the GM's
  request listener calls \<open>MarketStore.purchaseItem\<close> and \<open>reserveItem\<close> without
  reading the flag: a request that reaches it while the shop is closed is carried out
  (30 gold deducted, the item granted, a log entry and a reservation written).
\<close>

theorem closed_shop_request_still_executes:
  "\<not> isShopOpen (shop False (entry UNLIMITED (JNum 1) JNull JNull)) \<and>
   PlayerShop_purchaseItem player1 ''id1'' ''t1'' ''i1''
       (shop False (entry UNLIMITED (JNum 1) JNull JNull))
     = ([Warn ShopClosed], [], shop False (entry UNLIMITED (JNum 1) JNull JNull)) \<and>
   map_option currency_gp
     (actors (snd (onRequest gm ''t0'' ''id1'' ''t1'' (Request purchaseRequest ''a1'' ''i1'' None)
                     (shop False (entry UNLIMITED (JNum 1) JNull JNull)))) ''a1'')
     = Some (Some (JNum 20)) \<and>
   map_option inventory
     (actors (snd (onRequest gm ''t0'' ''id1'' ''t1'' (Request purchaseRequest ''a1'' ''i1'' None)
                     (shop False (entry UNLIMITED (JNum 1) JNull JNull)))) ''a1'')
     = Some [\<lparr>data_name = ''Sword'', data_price = JNum 30\<rparr>] \<and>
   length (activityLog
     (snd (onRequest gm ''t0'' ''id1'' ''t1'' (Request purchaseRequest ''a1'' ''i1'' None)
             (shop False (entry UNLIMITED (JNum 1) JNull JNull))))) = 1 \<and>
   map res_actorId (reservationsOf
     (snd (onRequest gm ''t0'' ''id1'' ''t1'' (Request reserveRequest ''a1'' ''i1'' None)
             (shop False (entry RESERVATION (JNum 1) JNull JNull)))) ''i1'') = [''a1'']"
  by (simp add: run_defs onRequest_def gm_def player1_def PlayerShop_purchaseItem_def
        isShopOpen_def)


section \<open>Routing a result back to the requester\<close>

lemma untagged_result_ignored: "onResult s (Response a r None) = []"
  by (simp add: onResult_def)

lemma PlayerShop_purchaseItem_request_untagged:
  assumes "Request a actorId itemUuid sender \<in> set (fst (snd (PlayerShop_purchaseItem s rid now uuid w)))"
  shows "sender = None"
  using assms
  by (auto simp: PlayerShop_purchaseItem_def split: option.splits if_splits prod.splits sum.splits)

lemma onRequest_forwards_sender:
  assumes "Response a r t \<in> set (fst (onRequest s now rid now' (Request k actorId itemUuid sender) w))"
  shows "t = sender"
  using assms
  by (auto simp: onRequest_def split: if_splits prod.splits sum.splits)


text \<open>
  Claim C8. The result of a forwarded request should carry the requester's user id so
  that exactly that session shows it. The request a player's shop window emits has no
  \<open>sender\<close> field, the GM's listener copies \<open>data.sender\<close> into \<open>targetUser\<close>, so
  the result is tagged \<open>undefined\<close> and no session, the requester included, shows it
  (tagged with the requester's id it would be shown).
\<close>

theorem result_of_forwarded_request_reaches_nobody:
  "PlayerShop_purchaseItem player1 ''id1'' ''t1'' ''i1''
       (shop True (entry UNLIMITED (JNum 1) JNull JNull))
     = ([], [Request purchaseRequest ''a1'' ''i1'' None],
        shop True (entry UNLIMITED (JNum 1) JNull JNull)) \<and>
   fst (onRequest gm ''t0'' ''id1'' ''t1'' (Request purchaseRequest ''a1'' ''i1'' None)
          (shop True (entry UNLIMITED (JNum 1) JNull JNull)))
     = [Event (ITEM_PURCHASED ''i1'' JNull) ''gm'',
        Response purchaseResult
          \<lparr>success = True, message = PurchaseSuccess ''Sword'' (JNum 30) ''Ori'',
           newStock = JNull\<rparr> None] \<and>
   onResult player1
     (Response purchaseResult
        \<lparr>success = True, message = PurchaseSuccess ''Sword'' (JNum 30) ''Ori'',
         newStock = JNull\<rparr> None) = [] \<and>
   (\<forall>s. onResult s
     (Response purchaseResult
        \<lparr>success = True, message = PurchaseSuccess ''Sword'' (JNum 30) ''Ori'',
         newStock = JNull\<rparr> None) = []) \<and>
   onResult player1
     (Response purchaseResult
        \<lparr>success = True, message = PurchaseSuccess ''Sword'' (JNum 30) ''Ori'',
         newStock = JNull\<rparr> (Some ''u1''))
     = [Info (PurchaseSuccess ''Sword'' (JNum 30) ''Ori'')]"
  by (simp add: run_defs onRequest_def onResult_def gm_def player1_def
        PlayerShop_purchaseItem_def isShopOpen_def)

section \<open>Sold out, on every state the module reaches\<close>

lemma reserveItem_config: "shopConfig (snd (reserveItem now rid now' a i w)) = shopConfig w"
proof (cases "success (fst (reserveItem now rid now' a i w))")
  case False
  from reserveItem_unchanged_on_failure [OF surjective_pairing False] show ?thesis by simp
next
  case True
  from reserveItem_success_cases [OF surjective_pairing True] obtain ac it c where
    A: "actors w a = Some ac" and I: "catalog w i = Some it"
    and C: "items (getShopConfig w) i = Some c" and R: "availability c = RESERVATION"
    and N: "a \<notin> set (map res_actorId (reservationsOf w i))" by blast
  from reserveItem_success_world(5) [OF A I C R N surjective_pairing] show ?thesis .
qed

lemma js_or_one_truthy: "truthy (js_or v (JNum 1))"
  by (cases v) (simp_all add: js_or_def)

lemma reachable_quantity:
  assumes "reachable w"
  shows "items (shopConfig w) u = Some c \<Longrightarrow> truthy (quantity c)"
  using assms
proof (induction arbitrary: u c)
  case (initial w)
  then show ?case by simp
next
  case (save w selectedCompendiums itemConfigs)
  from save.prems show ?case
    by (auto simp: ShopManager_onSaveConfig_def setShopConfig_def js_or_one_truthy
             split: option.splits)
next
  case (stock w itemUuid v)
  from stock.prems obtain c0 where "items (shopConfig w) u = Some c0" "quantity c = quantity c0"
    by (auto simp: updateStock_def Let_def setShopConfig_def getShopConfig_def
             split: option.splits if_splits)
  with stock.IH show ?case by simp
next
  case (purchase w rid now actorId itemUuid)
  from purchaseItem_entry [OF surjective_pairing purchase.prems]
  obtain c0 where "items (shopConfig w) u = Some c0" "quantity c = quantity c0" by auto
  with purchase.IH show ?case by simp
next
  case (reserve w now rid now' actorId itemUuid)
  from reserve.prems reserve.IH show ?case by (simp add: reserveItem_config)
next
  case (toggle w)
  from toggle.prems toggle.IH show ?case by (simp add: toggleShop_def)
next
  case (clear_log w)
  from clear_log.prems clear_log.IH show ?case by (simp add: clearActivityLog_def)
next
  case (clear_reservations w itemUuid)
  from clear_reservations.prems clear_reservations.IH show ?case
    by (simp add: clearItemReservations_def)
next
  case (host w as cat us cn)
  from host.prems host.IH show ?case by simp
qed

lemma reachable_stock_defined:
  assumes "reachable w" "items (getShopConfig w) u = Some c"
  shows "nullish (currentStock c) (quantity c) \<noteq> JUndefined"
proof -
  from reachable_quantity [OF assms(1)] assms(2) have "truthy (quantity c)"
    by (simp add: getShopConfig_def)
  then show ?thesis by (cases "quantity c") (auto simp: nullish_def)
qed


text \<open>
  Reachability matters here: on an entry with neither \<open>currentStock\<close> nor \<open>quantity\<close>,
  which no write of the module produces, \<open>getAvailableStock\<close> reports 0 while the check
  in \<open>purchaseItem\<close> compares \<open>undefined <= 0\<close> and lets the purchase through.
\<close>

lemma unset_stock_is_not_sold_out:
  "getAvailableStock ''i1'' (shop True (entry LIMITED JUndefined JNull JUndefined)) = JNum 0 \<and>
   succeeded (fst (purchaseItem ''id1'' ''t1'' ''a1'' ''i1''
                     (shop True (entry LIMITED JUndefined JNull JUndefined))))"
  by (simp add: run_defs)


text \<open>
  Claim C3. In every reachable state, with actor, item and entry resolved, a purchase of
  a Limited item fails as sold out if and only if the available stock is at most 0, where
  the available stock is \<open>currentStock\<close> if set, else \<open>quantity\<close>, else 0; the balance
  plays no part, so an item with stock 0 is sold out also for an actor who could pay.
\<close>

theorem sold_out_iff_no_stock:
  assumes "reachable w" "actors w actorId = Some a" "catalog w itemUuid = Some it"
    "items (getShopConfig w) itemUuid = Some c" "availability c = LIMITED"
  shows "(purchaseItem rid now actorId itemUuid w = (Inr (failure ItemSoldOut), w)) =
           js_le (getAvailableStock itemUuid w) (JNum 0) \<and>
         (fst (purchaseItem rid now actorId itemUuid w) = Inr (failure ItemSoldOut)) =
           js_le (getAvailableStock itemUuid w) (JNum 0) \<and>
         getAvailableStock itemUuid w =
           nullish (nullish (currentStock c) (quantity c)) (JNum 0)"
proof -
  note D = reachable_stock_defined [OF assms(1,4)]
  note E = purchaseItem_sold_out_iff [OF assms(2-5) D, of rid now]
  have G: "getAvailableStock itemUuid w = nullish (nullish (currentStock c) (quantity c)) (JNum 0)"
    using assms(4,5) by (simp add: getAvailableStock_def)
  have F: "(fst (purchaseItem rid now actorId itemUuid w) = Inr (failure ItemSoldOut)) =
           (purchaseItem rid now actorId itemUuid w = (Inr (failure ItemSoldOut), w))"
  proof
    assume f: "fst (purchaseItem rid now actorId itemUuid w) = Inr (failure ItemSoldOut)"
    have "\<not> succeeded (fst (purchaseItem rid now actorId itemUuid w))"
      by (simp add: f failure_def)
    from purchaseItem_failed_world [OF surjective_pairing this]
    have "snd (purchaseItem rid now actorId itemUuid w) = w" .
    with f show "purchaseItem rid now actorId itemUuid w = (Inr (failure ItemSoldOut), w)"
      by (simp add: prod_eq_iff)
  next
    assume "purchaseItem rid now actorId itemUuid w = (Inr (failure ItemSoldOut), w)"
    then show "fst (purchaseItem rid now actorId itemUuid w) = Inr (failure ItemSoldOut)" by simp
  qed
  from E F G show ?thesis by simp
qed

theorem sold_out_iff_no_stock_witness:
  "reachable (snd (purchaseItem ''id1'' ''t1'' ''a1'' ''i1''
                     (ShopManager_onSaveConfig [] limited_draft fresh_shop))) \<and>
   getAvailableStock ''i1''
     (snd (purchaseItem ''id1'' ''t1'' ''a1'' ''i1''
             (ShopManager_onSaveConfig [] limited_draft fresh_shop))) = JNum 0 \<and>
   map_option currency_gp
     (actors (snd (purchaseItem ''id1'' ''t1'' ''a1'' ''i1''
                     (ShopManager_onSaveConfig [] limited_draft fresh_shop))) ''a1'')
     = Some (Some (JNum 40)) \<and>
   purchaseItem ''id2'' ''t2'' ''a1'' ''i1''
     (snd (purchaseItem ''id1'' ''t1'' ''a1'' ''i1''
             (ShopManager_onSaveConfig [] limited_draft fresh_shop)))
   = (Inr (failure ItemSoldOut),
      snd (purchaseItem ''id1'' ''t1'' ''a1'' ''i1''
             (ShopManager_onSaveConfig [] limited_draft fresh_shop)))"
proof -
  let ?w1 = "ShopManager_onSaveConfig [] limited_draft fresh_shop"
  let ?w2 = "snd (purchaseItem ''id1'' ''t1'' ''a1'' ''i1'' ?w1)"
  let ?c = "\<lparr>availability = LIMITED, quantity = JNum 1, customPrice = JNum 10,
             currentStock = JNum 0\<rparr>"
  let ?a = "alice\<lparr>currency_gp := Some (JNum 40),
                   inventory := [\<lparr>data_name = ''Sword'', data_price = JNum 30\<rparr>]\<rparr>"
  have "reachable fresh_shop"
    by (rule reachable.initial) (simp_all add: fresh_shop_def shop_def)
  then have "reachable ?w1" by (rule reachable.save)
  then have r: "reachable ?w2" by (rule reachable.purchase)
  have a: "actors ?w2 ''a1'' = Some ?a"
    by (simp add: run_defs ShopManager_onSaveConfig_def fresh_shop_def limited_draft_def)
  have i: "catalog ?w2 ''i1'' = Some sword"
    by (simp add: run_defs ShopManager_onSaveConfig_def fresh_shop_def limited_draft_def)
  have c: "items (getShopConfig ?w2) ''i1'' = Some ?c"
    by (simp add: run_defs ShopManager_onSaveConfig_def fresh_shop_def limited_draft_def)
  have l: "availability ?c = LIMITED" by simp
  note T = sold_out_iff_no_stock [OF r a i c l, of "''id2''" "''t2''"]
  from T have g: "getAvailableStock ''i1'' ?w2 = JNum 0" by (simp add: nullish_def)
  then have "js_le (getAvailableStock ''i1'' ?w2) (JNum 0)" by (simp add: js_le_def)
  with T have s: "purchaseItem ''id2'' ''t2'' ''a1'' ''i1'' ?w2 = (Inr (failure ItemSoldOut), ?w2)"
    by blast
  from a have m: "map_option currency_gp (actors ?w2 ''a1'') = Some (Some (JNum 40))" by simp
  from r g m s show ?thesis by blast
qed


section \<open>Stock values\<close>











end
